theory Spec2Isabelle
  imports Main
begin

section \<open>The store\<close>

text \<open>
  The bot keeps three SQLite tables in one file (bot.py:20-42, database.py:63-89):
  \<^verbatim>\<open>scrims(id, time_period UNIQUE)\<close>, \<^verbatim>\<open>teams(id, team_name, scrim_time, leader_id)\<close> and
  \<^verbatim>\<open>members(id, team_id, member_name)\<close>. A table is the list of its rows in rowid
  order. Every \<^verbatim>\<open>id\<close> is \<^verbatim>\<open>INTEGER PRIMARY KEY AUTOINCREMENT\<close>, so each table carries
  the last id it handed out. A signup is a further row of \<^verbatim>\<open>teams\<close> with the team's name,
  the leader's id and the day in \<^verbatim>\<open>scrim_time\<close>; the row written when a team is created
  has \<^verbatim>\<open>scrim_time = ""\<close>.
\<close>

record scrim_row =
  scrim_id :: nat
  time_period :: string

record team_row =
  team_id :: nat
  team_name :: string
  scrim_time :: string
  leader_id :: int

record member_row =
  member_id :: nat
  member_team_id :: nat
  member_name :: string

record tables =
  scrims :: "scrim_row list"
  teams :: "team_row list"
  members :: "member_row list"
  scrims_seq :: nat
  teams_seq :: nat
  members_seq :: nat


section \<open>Python values the handlers depend on\<close>

text \<open>
  Exceptions are values. \<open>TypeError\<close> is what Python raises when an object is used through
  a protocol it does not implement; \<open>IntegrityError\<close> is SQLite's report of a violated
  \<^verbatim>\<open>UNIQUE\<close> constraint; \<open>ValueError\<close> is what \<^verbatim>\<open>int()\<close> raises on a malformed string;
  \<open>Raised\<close> stands for any other exception a block may raise.
\<close>

datatype py_exn = TypeError | IntegrityError | ValueError | Raised string

text \<open>
  A block of statements run against the database: it returns a value or raises, and
  leaves the tables as its statements wrote them.
\<close>

type_synonym 'a block = "tables \<Rightarrow> (py_exn + 'a) \<times> tables"

section \<open>database.py: the transaction wrapper\<close>

text \<open>
  \<^verbatim>\<open>
      @asynccontextmanager
      async def get_connection(self): ...          # database.py:11-15

      async def transaction(self):                 # database.py:47-56
          async with self.get_connection() as db:
              async with db.cursor() as cursor:
                  await cursor.execute("BEGIN TRANSACTION")
                  try:
                      yield cursor
                      await db.commit()
                  except Exception as e:
                      await db.rollback()
                      raise e
  \<close>
  \<open>transaction_code\<close> is the text of the generator with the block that runs at its
  \<^verbatim>\<open>yield\<close> filled in: the block's writes are committed when it returns, and when it
  raises the tables go back to what they were at \<^verbatim>\<open>BEGIN\<close> and the exception is raised
  again.
\<close>

definition transaction_code :: "'a block \<Rightarrow> 'a block" where
  "transaction_code body db =
     (case body db of
        (Inr v, db') \<Rightarrow> (Inr v, db')
      | (Inl e, db') \<Rightarrow> (Inl e, db))"

text \<open>
  What a call of an \<^verbatim>\<open>async def\<close> that contains \<^verbatim>\<open>yield\<close> evaluates to depends on its
  decorator. Under \<^verbatim>\<open>@asynccontextmanager\<close> it is an asynchronous context manager that
  drives the generator around the \<^verbatim>\<open>async with\<close> block. Without the decorator it is a
  bare async generator object, which has no \<^verbatim>\<open>__aenter__\<close> and no \<^verbatim>\<open>__aexit__\<close>.
\<close>

datatype 'a async_obj =
  AsyncContextManager "'a block \<Rightarrow> 'a block"
| AsyncGenerator "'a block \<Rightarrow> 'a block"

text \<open>
  \<^verbatim>\<open>async with obj as cursor: body\<close>. Python looks up \<^verbatim>\<open>__aenter__\<close> and \<^verbatim>\<open>__aexit__\<close> on
  the object before anything else runs; when they are missing the statement raises
  \<^verbatim>\<open>TypeError: 'async_generator' object does not support the asynchronous context manager protocol\<close>
  (an \<^verbatim>\<open>AttributeError\<close> before Python 3.11; both are subclasses of \<^verbatim>\<open>Exception\<close>), the
  generator is never started and the block is never entered.
\<close>

fun async_with :: "'a async_obj \<Rightarrow> 'a block \<Rightarrow> 'a block" where
  "async_with (AsyncContextManager gen) body db = gen body db"
| "async_with (AsyncGenerator gen) body db = (Inl TypeError, db)"

text \<open>
  \<^verbatim>\<open>db.transaction()\<close>: \<^verbatim>\<open>transaction\<close> is declared at database.py:47 without the
  \<^verbatim>\<open>@asynccontextmanager\<close> that \<^verbatim>\<open>get_connection\<close> carries at database.py:11, so the call
  yields a bare async generator object.
\<close>

definition transaction :: "'a async_obj" where
  "transaction = AsyncGenerator transaction_code"

section \<open>bot.py: helper functions\<close>

text \<open>
  \<^verbatim>\<open>
  async def add_scrim_time(time_period):                      # bot.py:72-78
      try:
          async with db.transaction() as cursor:
              await cursor.execute("INSERT INTO scrims (time_period) VALUES (?)", (time_period,))
          return True
      except Exception:
          return False
  \<close>
  \<open>insert_scrim\<close> is the \<^verbatim>\<open>INSERT\<close>: the \<^verbatim>\<open>UNIQUE\<close> constraint on \<^verbatim>\<open>time_period\<close> makes it
  raise when the period is already there.
\<close>

definition insert_scrim :: "string \<Rightarrow> unit block" where
  "insert_scrim period db =
     (if period \<in> set (map time_period (scrims db)) then (Inl IntegrityError, db)
      else (Inr (),
            db\<lparr>scrims := scrims db @ [\<lparr>scrim_id = scrims_seq db + 1, time_period = period\<rparr>],
               scrims_seq := scrims_seq db + 1\<rparr>))"

definition add_scrim_time :: "string \<Rightarrow> tables \<Rightarrow> bool \<times> tables" where
  "add_scrim_time period db =
     (case async_with transaction (insert_scrim period) db of
        (Inr _, db') \<Rightarrow> (True, db')
      | (Inl _, db') \<Rightarrow> (False, db'))"



text \<open>
  \<^verbatim>\<open>
  async def add_team_member(team_id, member_name):            # bot.py:92-103
      async with db.transaction() as cursor:
          # Check if team exists and has space
          await cursor.execute("SELECT COUNT(*) as count FROM members WHERE team_id = ?", (team_id,))
          result = await cursor.fetchone()
          if result['count'] < 5:  # Assuming max 5 members per team
              await cursor.execute("INSERT INTO members (team_id, member_name) VALUES (?, ?)", ...)
              return True
          return False
  \<close>
  \<open>guarded_member_insert\<close> is the block under the \<^verbatim>\<open>async with\<close>.
\<close>

definition member_count :: "tables \<Rightarrow> nat \<Rightarrow> nat" where
  "member_count db tid = length (filter (\<lambda>m. member_team_id m = tid) (members db))"

definition guarded_member_insert :: "nat \<Rightarrow> string \<Rightarrow> bool block" where
  "guarded_member_insert tid name db =
     (if member_count db tid < 5
      then (Inr True,
            db\<lparr>members := members db @
                   [\<lparr>member_id = members_seq db + 1, member_team_id = tid, member_name = name\<rparr>],
               members_seq := members_seq db + 1\<rparr>)
      else (Inr False, db))"

definition add_team_member :: "nat \<Rightarrow> string \<Rightarrow> bool block" where
  "add_team_member tid name = async_with transaction (guarded_member_insert tid name)"

text \<open>
  \<^verbatim>\<open>get_team_members\<close> (bot.py:105-107) and \<^verbatim>\<open>get_team_id\<close> (bot.py:109-111), as the values
  their coroutines produce when awaited. They read through \<^verbatim>\<open>fetch_all\<close> and \<^verbatim>\<open>fetch_one\<close>,
  which use \<^verbatim>\<open>get_connection\<close> and so work as written.
\<close>

definition get_team_members :: "tables \<Rightarrow> nat \<Rightarrow> string list" where
  "get_team_members db tid = map member_name (filter (\<lambda>m. member_team_id m = tid) (members db))"





section \<open>Strings\<close>

text \<open>
  \<^verbatim>\<open>s.startswith(p)\<close>; \<^verbatim>\<open>s.split(sep, 1)[-1]\<close> (what follows the first occurrence of a
  non-empty \<^verbatim>\<open>sep\<close>, or all of \<^verbatim>\<open>s\<close> when there is none); \<^verbatim>\<open>s.split("_")[-1]\<close> (what
  follows the last underscore); \<^verbatim>\<open>s.upper()\<close> on ASCII letters. Strings are lists of
  8-bit characters, so lengths agree with Python's on ASCII text.
\<close>

fun startswith :: "string \<Rightarrow> string \<Rightarrow> bool" where
  "startswith s [] = True"
| "startswith [] (p # ps) = False"
| "startswith (c # cs) (p # ps) = (c = p \<and> startswith cs ps)"



definition last_field :: "string \<Rightarrow> string" where
  "last_field s = rev (takeWhile (\<lambda>c. c \<noteq> CHR ''_'') (rev s))"



text \<open>
  \<^verbatim>\<open>str(n)\<close> for an integer and \<^verbatim>\<open>int(s)\<close> for a string of ASCII decimal digits with an
  optional minus sign, which is every string \<^verbatim>\<open>str\<close> produces; \<^verbatim>\<open>int\<close> raises
  \<^verbatim>\<open>ValueError\<close> on the strings it cannot read.
\<close>

definition digit_char :: "nat \<Rightarrow> char" where
  "digit_char n = char_of (48 + n)"

function str_nat :: "nat \<Rightarrow> string" where
  "str_nat n = (if n < 10 then [digit_char n] else str_nat (n div 10) @ [digit_char (n mod 10)])"
  by pat_completeness auto
termination
  by (relation "measure (\<lambda>n. n)") auto

declare str_nat.simps [simp del]

definition str :: "int \<Rightarrow> string" where
  "str i = (if i < 0 then CHR ''-'' # str_nat (nat (- i)) else str_nat (nat i))"

definition digit_val :: "char \<Rightarrow> nat option" where
  "digit_val c =
     (let n = (of_char c :: nat) in if 48 \<le> n \<and> n \<le> 57 then Some (n - 48) else None)"

fun int_digits :: "nat \<Rightarrow> string \<Rightarrow> nat option" where
  "int_digits acc [] = Some acc"
| "int_digits acc (c # cs) =
     (case digit_val c of None \<Rightarrow> None | Some d \<Rightarrow> int_digits (10 * acc + d) cs)"

definition py_int :: "string \<Rightarrow> py_exn + int" where
  "py_int s =
     (case s of
        [] \<Rightarrow> Inl ValueError
      | c # cs \<Rightarrow>
          if c = CHR ''-''
          then (case cs of
                  [] \<Rightarrow> Inl ValueError
                | _ # _ \<Rightarrow> (case int_digits 0 cs of None \<Rightarrow> Inl ValueError | Some n \<Rightarrow> Inr (- int n)))
          else (case int_digits 0 s of None \<Rightarrow> Inl ValueError | Some n \<Rightarrow> Inr (int n)))"

section \<open>The Discord member behind an interaction\<close>

text \<open>
  The handlers read \<^verbatim>\<open>interaction.user.id\<close>, \<^verbatim>\<open>.display_name\<close> (the nickname when one is
  set, else the account's name), \<^verbatim>\<open>.nick\<close> and \<^verbatim>\<open>.roles\<close>, and change the last two with
  \<^verbatim>\<open>add_roles\<close>, \<^verbatim>\<open>remove_roles\<close> and \<^verbatim>\<open>edit(nick=...)\<close>. A role is its name. Calls to
  Discord are taken to succeed.
\<close>

record discord_user =
  user_id :: int
  user_name :: string
  nick :: "string option"
  roles :: "string list"

definition display_name :: "discord_user \<Rightarrow> string" where
  "display_name u =
     (case nick u of None \<Rightarrow> user_name u | Some n \<Rightarrow> if n = [] then user_name u else n)"

definition add_roles :: "string \<Rightarrow> discord_user \<Rightarrow> discord_user" where
  "add_roles r u = (if r \<in> set (roles u) then u else u\<lparr>roles := roles u @ [r]\<rparr>)"


definition edit_nick :: "string \<Rightarrow> discord_user \<Rightarrow> discord_user" where
  "edit_nick n u = u\<lparr>nick := Some n\<rparr>"

section \<open>bot.py: team handlers\<close>

text \<open>
  \<^verbatim>\<open>SELECT team_name FROM teams WHERE leader_id = ?\<close> followed by \<^verbatim>\<open>fetchone()\<close>, the test
  every handler uses for "is a leader"; and \<^verbatim>\<open>SELECT team_name FROM teams\<close>.
\<close>

definition leader_rows :: "tables \<Rightarrow> int \<Rightarrow> team_row list" where
  "leader_rows db uid = filter (\<lambda>r. leader_id r = uid) (teams db)"

definition team_names :: "tables \<Rightarrow> string list" where
  "team_names db = map team_name (teams db)"



text \<open>
  \<^verbatim>\<open>join_team_logic\<close> (bot.py:337-379): the checks and the select menu it sends, then
  the menu's \<^verbatim>\<open>select_callback\<close> (bot.py:362-372), which gives the member the role named
  after the team and a nickname, and sends "You have joined the team". It issues no SQL
  statement and does not call \<^verbatim>\<open>add_team_member\<close>.
\<close>

datatype join_prompt = JoinAlreadyLeader | JoinAlreadyMember | JoinNoTeams | JoinSelect "string list"

definition join_team_logic :: "tables \<Rightarrow> discord_user \<Rightarrow> join_prompt" where
  "join_team_logic db u =
     (if leader_rows db (user_id u) \<noteq> [] then JoinAlreadyLeader
      else if filter (\<lambda>m. member_name m = display_name u) (members db) \<noteq> [] then JoinAlreadyMember
      else if team_names db = [] then JoinNoTeams
      else JoinSelect (team_names db))"

definition join_select_callback :: "string \<Rightarrow> tables \<Rightarrow> discord_user \<Rightarrow> tables \<times> discord_user" where
  "join_select_callback selected_team db u =
     (db, edit_nick (selected_team @ '' '' @ display_name u) (add_roles selected_team u))"

text \<open>
  The whole interaction: the prompt, then the member's choice among the options offered
  (Discord accepts no other value).
\<close>

datatype join_result = Joined | JoinRefused join_prompt | NotAnOption

definition join_team :: "string \<Rightarrow> tables \<Rightarrow> discord_user \<Rightarrow> join_result \<times> tables \<times> discord_user" where
  "join_team name db u =
     (case join_team_logic db u of
        JoinSelect options \<Rightarrow>
          if name \<in> set options then (Joined, join_select_callback name db u)
          else (NotAnOption, db, u)
      | refusal \<Rightarrow> (JoinRefused refusal, db, u))"




text \<open>
  \<^verbatim>\<open>discard_team_logic\<close> (bot.py:604-614), its effect on the store:
  \<^verbatim>\<open>
      cursor.execute("SELECT team_name, id FROM teams WHERE leader_id = ?", (leader_id,))
      team = cursor.fetchone()
      if team:
          team_name, team_id = team
          cursor.execute("DELETE FROM teams WHERE id = ?", (team_id,))
          cursor.execute("DELETE FROM members WHERE team_id = ?", (team_id,))
          conn.commit()
  \<close>
  It returns the team's name, or nothing when the user leads no team. The clean-up of
  roles and nicknames that follows acts on the guild, not on the store.
\<close>

definition discard_team_logic :: "tables \<Rightarrow> int \<Rightarrow> string option \<times> tables" where
  "discard_team_logic db leader =
     (case leader_rows db leader of
        [] \<Rightarrow> (None, db)
      | r # _ \<Rightarrow>
          (Some (team_name r),
           db\<lparr>teams := filter (\<lambda>t. team_id t \<noteq> team_id r) (teams db),
              members := filter (\<lambda>m. member_team_id m \<noteq> team_id r) (members db)\<rparr>))"

section \<open>bot.py: scrim handlers\<close>

text \<open>
  \<^verbatim>\<open>scrim_signup_logic\<close> (bot.py:444-539). \<open>days_of_week\<close> are the seven \<^verbatim>\<open>%d/%m\<close> strings
  from today on. The first loop keeps the days the team has no row for and whose count
  is below 12, each count read under its own \<^verbatim>\<open>async with db.transaction()\<close>.
\<close>

definition count_registrations :: "tables \<Rightarrow> string \<Rightarrow> nat" where
  "count_registrations db day = length (filter (\<lambda>r. scrim_time r = day) (teams db))"





text \<open>
  The menu's \<^verbatim>\<open>select_callback\<close> (bot.py:495-532): for each selected day, under its own
  \<^verbatim>\<open>async with db.transaction()\<close>, the count is read again and the row is inserted when it
  is below 12. \<open>guarded_signup\<close> is that block; the loop collects one result per day.
\<close>

datatype signup_status = Accepted | SlotFull

definition guarded_signup :: "string \<Rightarrow> int \<Rightarrow> string \<Rightarrow> signup_status block" where
  "guarded_signup name leader day db =
     (if count_registrations db day < 12
      then (Inr Accepted,
            db\<lparr>teams := teams db @
                   [\<lparr>team_id = teams_seq db + 1, team_name = name, scrim_time = day, leader_id = leader\<rparr>],
               teams_seq := teams_seq db + 1\<rparr>)
      else (Inr SlotFull, db))"

fun signup_select_callback ::
  "string \<Rightarrow> int \<Rightarrow> string list \<Rightarrow> (string \<times> signup_status) list \<Rightarrow> (string \<times> signup_status) list block" where
  "signup_select_callback name leader [] results db = (Inr results, db)"
| "signup_select_callback name leader (day # days) results db =
     (case async_with transaction (guarded_signup name leader day) db of
        (Inl e, db') \<Rightarrow> (Inl e, db')
      | (Inr status, db') \<Rightarrow> signup_select_callback name leader days (results @ [(day, status)]) db')"

text \<open>
  \<^verbatim>\<open>cancel_sign_up_logic\<close> (bot.py:541-575). The dates offered are the team's
  \<^verbatim>\<open>scrim_time\<close> values that are truthy, cut to 100 characters; the callback deletes, for
  each selected date, the rows of that team name and date, and commits.
\<close>

datatype cancel_prompt = CancelNotALeader | NoScrims string | CancelSelect string "string list"

definition cancel_sign_up_logic :: "tables \<Rightarrow> int \<Rightarrow> cancel_prompt" where
  "cancel_sign_up_logic db leader =
     (case leader_rows db leader of
        [] \<Rightarrow> CancelNotALeader
      | r # _ \<Rightarrow>
          let scrim_times =
                filter (\<lambda>s. s \<noteq> [])
                  (map scrim_time (filter (\<lambda>t. team_name t = team_name r) (teams db))) in
          if scrim_times \<noteq> [] then CancelSelect (team_name r) (map (take 100) scrim_times)
          else NoScrims (team_name r))"

fun cancel_select_callback :: "string \<Rightarrow> string list \<Rightarrow> tables \<Rightarrow> tables" where
  "cancel_select_callback name [] db = db"
| "cancel_select_callback name (date # dates) db =
     cancel_select_callback name dates
       (db\<lparr>teams := filter (\<lambda>t. \<not> (team_name t = name \<and> scrim_time t = date)) (teams db)\<rparr>)"

text \<open>
  \<^verbatim>\<open>check_schedule_logic\<close> (bot.py:577-602): the team the user leads, else the first team
  joined to a \<^verbatim>\<open>members\<close> row with the user's display name; then that team name's truthy
  \<^verbatim>\<open>scrim_time\<close> values. Nothing is returned when the user has neither.
\<close>

definition check_schedule_logic :: "tables \<Rightarrow> discord_user \<Rightarrow> (string \<times> string list) option" where
  "check_schedule_logic db u =
     (let team_data =
            (case leader_rows db (user_id u) of
               r # _ \<Rightarrow> Some (team_name r)
             | [] \<Rightarrow>
                 (case concat (map (\<lambda>t. map (\<lambda>m. team_name t)
                         (filter (\<lambda>m. member_team_id m = team_id t \<and> member_name m = display_name u)
                            (members db))) (teams db)) of
                    name # _ \<Rightarrow> Some name
                  | [] \<Rightarrow> None))
      in case team_data of
           None \<Rightarrow> None
         | Some name \<Rightarrow>
             Some (name,
                   filter (\<lambda>s. s \<noteq> [])
                     (map scrim_time (filter (\<lambda>t. team_name t = name) (teams db)))))"

text \<open>
  \<^verbatim>\<open>participants_logic\<close> (bot.py:641-672): the teams with a row for the date shown, and
  the custom ids of the buttons attached for a day offset.
  \<^verbatim>\<open>
      if day_offset > 0:
          view.add_item(Button(..., custom_id=f"participants_prev_{day_offset - 1}"))
      if day_offset < 6:
          view.add_item(Button(..., custom_id=f"participants_next_{day_offset + 1}"))
      view.add_item(Button(..., custom_id="back_to_menu"))
  \<close>
\<close>

definition participants :: "tables \<Rightarrow> string \<Rightarrow> string list" where
  "participants db scrim_date = map team_name (filter (\<lambda>t. scrim_time t = scrim_date) (teams db))"

definition participants_buttons :: "int \<Rightarrow> string list" where
  "participants_buttons day_offset =
     (if day_offset > 0 then [''participants_prev_'' @ str (day_offset - 1)] else []) @
     (if day_offset < 6 then [''participants_next_'' @ str (day_offset + 1)] else []) @
     [''back_to_menu'']"

text \<open>
  \<^verbatim>\<open>on_interaction\<close> (bot.py:202-250), as far as it reaches \<^verbatim>\<open>participants_logic\<close>: the
  day offset it passes for a custom id, the exception \<^verbatim>\<open>int\<close> raises, or nothing when the
  id belongs to another handler or to none.
  \<^verbatim>\<open>
      elif custom_id == "participants":
          await participants_logic(interaction)
      elif custom_id.startswith("participants_prev_") or custom_id.startswith("participants_next_"):
          day_offset = int(custom_id.split("_")[-1])
          await participants_logic(interaction, day_offset)
  \<close>
\<close>

definition on_interaction :: "string \<Rightarrow> (py_exn + int) option" where
  "on_interaction custom_id =
     (if custom_id \<in> set [''list_teams'', ''reset_database'', ''create_team'', ''join_team'',
            ''check_teams'', ''quit_team'', ''scrim_signup'', ''cancel_sign_up'', ''check_schedule'',
            ''discard_team''] then None
      else if custom_id = ''participants'' then Some (Inr 0)
      else if startswith custom_id ''participants_prev_'' \<or> startswith custom_id ''participants_next_''
      then Some (py_int (last_field custom_id))
      else None)"

text \<open>
  Pressing buttons in the participants view: each press must be a button the view for
  the current offset carries, and leads to the view for the offset \<^verbatim>\<open>on_interaction\<close>
  reads from it. The walk ends when a press leaves the view.
\<close>

fun navigate :: "int \<Rightarrow> string list \<Rightarrow> int option" where
  "navigate day_offset [] = Some day_offset"
| "navigate day_offset (custom_id # presses) =
     (if custom_id \<in> set (participants_buttons day_offset)
      then (case on_interaction custom_id of
              Some (Inr day_offset') \<Rightarrow> navigate day_offset' presses
            | _ \<Rightarrow> None)
      else None)"

section \<open>Concrete stores and members\<close>

text \<open>
  Team ABC, led by user 7 (ann), as the row \<^verbatim>\<open>add_team("ABC", "", 7)\<close> describes; the same
  team with a signup for 05/06 and one member row; the team with four and with five
  member rows; and bob, user 8, who leads nothing and is in no team.
\<close>

definition abc_store :: tables where
  "abc_store =
     \<lparr>scrims = [],
      teams = [\<lparr>team_id = 1, team_name = ''ABC'', scrim_time = [], leader_id = 7\<rparr>],
      members = [], scrims_seq = 0, teams_seq = 1, members_seq = 0\<rparr>"

definition abc_signed_up :: tables where
  "abc_signed_up =
     \<lparr>scrims = [],
      teams = [\<lparr>team_id = 1, team_name = ''ABC'', scrim_time = [], leader_id = 7\<rparr>,
               \<lparr>team_id = 2, team_name = ''ABC'', scrim_time = ''05/06'', leader_id = 7\<rparr>],
      members = [\<lparr>member_id = 1, member_team_id = 1, member_name = ''bob''\<rparr>],
      scrims_seq = 0, teams_seq = 2, members_seq = 1\<rparr>"

definition four_members :: tables where
  "four_members =
     abc_store\<lparr>members :=
        [\<lparr>member_id = 1, member_team_id = 1, member_name = ''m1''\<rparr>,
         \<lparr>member_id = 2, member_team_id = 1, member_name = ''m2''\<rparr>,
         \<lparr>member_id = 3, member_team_id = 1, member_name = ''m3''\<rparr>,
         \<lparr>member_id = 4, member_team_id = 1, member_name = ''m4''\<rparr>],
        members_seq := 4\<rparr>"

definition five_members :: tables where
  "five_members =
     abc_store\<lparr>members :=
        [\<lparr>member_id = 1, member_team_id = 1, member_name = ''m1''\<rparr>,
         \<lparr>member_id = 2, member_team_id = 1, member_name = ''m2''\<rparr>,
         \<lparr>member_id = 3, member_team_id = 1, member_name = ''m3''\<rparr>,
         \<lparr>member_id = 4, member_team_id = 1, member_name = ''m4''\<rparr>,
         \<lparr>member_id = 5, member_team_id = 1, member_name = ''m5''\<rparr>],
        members_seq := 5\<rparr>"

definition ann :: discord_user where
  "ann = \<lparr>user_id = 7, user_name = ''ann'', nick = Some ''ABC ann(C)'', roles = [''Team leader'']\<rparr>"

definition bob :: discord_user where
  "bob = \<lparr>user_id = 8, user_name = ''bob'', nick = None, roles = []\<rparr>"




definition bob_joined :: discord_user where
  "bob_joined = \<lparr>user_id = 8, user_name = ''bob'', nick = Some ''ABC bob'', roles = [''ABC'']\<rparr>"


section \<open>Properties of the transaction wrapper\<close>

text \<open>
  The generator's own text is sound: driven as a context manager it keeps the writes of a
  block that returns, and undoes the writes of a block that raises while passing the same
  exception on.
\<close>

lemma transaction_code_commit:
  "body db = (Inr v, db') \<Longrightarrow> async_with (AsyncContextManager transaction_code) body db = (Inr v, db')"
  by (simp add: transaction_code_def)

lemma transaction_code_rollback:
  "body db = (Inl e, db') \<Longrightarrow> async_with (AsyncContextManager transaction_code) body db = (Inl e, db)"
  by (simp add: transaction_code_def)

text \<open>
  Claim C7. The claim: the transaction wrapper commits when the block returns, and when the
  block raises it rolls the block's writes back and raises the same exception again.
  The code: \<^verbatim>\<open>async with db.transaction() as cursor\<close> raises \<open>TypeError\<close> for every block
  and every state of the tables, before the block is entered; nothing the block would
  write is committed and whatever the block would raise is never seen.
\<close>

theorem transaction_never_enters_block:
  "async_with transaction body db = (Inl TypeError, db)"
  by (simp add: transaction_def)

text \<open>
  Claim C8. The claim: \<^verbatim>\<open>add_scrim_time\<close> never raises, returns \<^verbatim>\<open>True\<close> when it inserted
  a new period and \<^verbatim>\<open>False\<close>, with the store unchanged, when the period exists.
  The code: \<^verbatim>\<open>add_scrim_time\<close> returns \<^verbatim>\<open>False\<close> and leaves the store unchanged for every
  period, also for one that no row of \<^verbatim>\<open>scrims\<close> holds: the \<open>TypeError\<close> of the
  \<^verbatim>\<open>async with\<close> is caught by its \<^verbatim>\<open>except Exception\<close>.
\<close>

theorem add_scrim_time_always_False:
  "add_scrim_time period db = (False, db)"
  by (simp add: add_scrim_time_def transaction_def)

section \<open>Signing up\<close>

text \<open>
  The block under the \<^verbatim>\<open>async with\<close> of \<^verbatim>\<open>select_callback\<close> does keep a slot at twelve
  rows or fewer: it inserts only below twelve, and one row at a time.
\<close>

lemma guarded_signup_cap:
  "count_registrations db d \<le> 12 \<Longrightarrow>
   count_registrations (snd (guarded_signup name leader day db)) d \<le> 12"
  by (auto simp: guarded_signup_def count_registrations_def)



section \<open>Joining and quitting\<close>

text \<open>
  Claim C2. The claim: a successful join inserts exactly one \<^verbatim>\<open>members\<close> row for the
  identity and the team.
  The code: bob joins team ABC; the handler answers that he has joined, and the
  \<^verbatim>\<open>members\<close> table is as empty as before, so \<^verbatim>\<open>get_team_members\<close> of the team does not
  list him.
\<close>

theorem join_inserts_no_membership:
  "fst (join_team ''ABC'' abc_store bob) = Joined \<and>
   members (fst (snd (join_team ''ABC'' abc_store bob))) = [] \<and>
   get_team_members (fst (snd (join_team ''ABC'' abc_store bob))) 1 = []"
  by (simp add: join_team_def join_team_logic_def join_select_callback_def leader_rows_def
      team_names_def display_name_def abc_store_def bob_def get_team_members_def)

text \<open>
  Claim C3. The claim: a team never has more than 4 \<^verbatim>\<open>members\<close> rows, because a join that
  finds 4 is refused with TeamFull and inserts nothing.
  The code: bob joins team ABC when it has four \<^verbatim>\<open>members\<close> rows, and again when it has
  five. Both times the handler answers that he has joined and gives him the team's role
  and nickname: \<^verbatim>\<open>join_team_logic\<close> and its callback count nothing, and the only count of
  \<^verbatim>\<open>members\<close> rows in the program is in \<^verbatim>\<open>add_team_member\<close>, which no handler calls.
\<close>

theorem join_ignores_capacity:
  "member_count four_members 1 = 4 \<and>
   join_team ''ABC'' four_members bob = (Joined, four_members, bob_joined) \<and>
   member_count five_members 1 = 5 \<and>
   join_team ''ABC'' five_members bob = (Joined, five_members, bob_joined)"
  by (simp add: member_count_def four_members_def five_members_def abc_store_def join_team_def
      join_team_logic_def join_select_callback_def leader_rows_def team_names_def display_name_def
      add_roles_def edit_nick_def bob_def bob_joined_def)


section \<open>Discarding a team\<close>

text \<open>
  Claim C4. The claim: discarding deletes the team's row, its \<^verbatim>\<open>members\<close> rows and all its
  signups, so that no listing shows the team any more.
  The code: ann discards team ABC, which is signed up for 05/06. The handler deletes the
  one row whose \<^verbatim>\<open>id\<close> it fetched and the team's \<^verbatim>\<open>members\<close> rows; the signup row, which has
  an \<^verbatim>\<open>id\<close> of its own, stays. The participants of 05/06 still list ABC, and ann's schedule
  still shows team ABC with 05/06.
\<close>

theorem discard_leaves_registration:
  "fst (discard_team_logic abc_signed_up 7) = Some ''ABC'' \<and>
   map team_id (teams (snd (discard_team_logic abc_signed_up 7))) = [2] \<and>
   members (snd (discard_team_logic abc_signed_up 7)) = [] \<and>
   participants (snd (discard_team_logic abc_signed_up 7)) ''05/06'' = [''ABC''] \<and>
   check_schedule_logic (snd (discard_team_logic abc_signed_up 7)) ann = Some (''ABC'', [''05/06''])"
  by (simp add: discard_team_logic_def leader_rows_def abc_signed_up_def participants_def
      check_schedule_logic_def ann_def)

section \<open>The participants view\<close>

lemma str_values:
  "str 0 = ''0''" "str 1 = ''1''" "str 2 = ''2''" "str 3 = ''3''"
  "str 4 = ''4''" "str 5 = ''5''" "str 6 = ''6''" "str 7 = ''7''"
  by code_simp+

lemma week_cases:
  "0 \<le> d \<Longrightarrow> d \<le> 6 \<Longrightarrow> d = 0 \<or> d = 1 \<or> d = 2 \<or> d = 3 \<or> d = 4 \<or> d = 5 \<or> d = (6::int)"
  by arith

text \<open>
  One press: from an offset within the week, a button of the view leads to the offset
  before (only when the offset is above 0) or the offset after (only when it is below 6).
\<close>

lemma press_moves_one_day:
  assumes "0 \<le> d" "d \<le> 6"
    and "custom_id \<in> set (participants_buttons d)"
    and "on_interaction custom_id = Some (Inr d')"
  shows "(d' = d - 1 \<and> 0 < d) \<or> (d' = d + 1 \<and> d < 6)"
  using week_cases [OF assms(1,2)] assms(3,4)
  by (elim disjE)
     (auto simp: participants_buttons_def str_values on_interaction_def last_field_def
        py_int_def digit_val_def)

lemma navigate_invariant:
  "0 \<le> d \<Longrightarrow> d \<le> 6 \<Longrightarrow> navigate d presses = Some d' \<Longrightarrow> 0 \<le> d' \<and> d' \<le> 6"
proof (induction presses arbitrary: d)
  case Nil
  then show ?case by simp
next
  case (Cons custom_id presses)
  from Cons.prems(3) obtain d1 where
    shown: "custom_id \<in> set (participants_buttons d)" and
    read: "on_interaction custom_id = Some (Inr d1)" and
    rest: "navigate d1 presses = Some d'"
    by (auto split: if_splits option.splits sum.splits)
  from press_moves_one_day [OF Cons.prems(1,2) shown read] Cons.prems(1,2)
  have "0 \<le> d1" "d1 \<le> 6" by auto
  from Cons.IH [OF this rest] show ?case .
qed

text \<open>
  Claim C9. The view opens at offset 0 (\<^verbatim>\<open>on_interaction\<close> calls \<^verbatim>\<open>participants_logic\<close> with
  its default for the custom id \<^verbatim>\<open>participants\<close>), and whatever buttons of the view are
  pressed from there, in any number and order, the offset shown stays from 0 to 6.
\<close>

theorem navigate_stays_in_week:
  "on_interaction ''participants'' = Some (Inr 0) \<and>
   (navigate 0 presses = Some d \<longrightarrow> 0 \<le> d \<and> d \<le> 6)"
  using navigate_invariant [of 0 presses d] by (simp add: on_interaction_def)

theorem navigate_stays_in_week_witness:
  "navigate 0 [''participants_next_1'', ''participants_next_2'', ''participants_prev_1''] = Some 1
   \<and> (0::int) \<le> 1 \<and> (1::int) \<le> 6"
proof -
  have walk:
    "navigate 0 [''participants_next_1'', ''participants_next_2'', ''participants_prev_1''] = Some 1"
    by code_simp
  from navigate_stays_in_week
         [of "[''participants_next_1'', ''participants_next_2'', ''participants_prev_1'']" 1] walk
  show ?thesis by simp
qed

section \<open>The empty scrim time\<close>

lemma cancel_keeps_base_rows:
  "[] \<notin> set selected \<Longrightarrow>
   filter (\<lambda>t. scrim_time t = []) (teams (cancel_select_callback name selected db)) =
   filter (\<lambda>t. scrim_time t = []) (teams db)"
proof (induction selected arbitrary: db)
  case Nil
  then show ?case by simp
next
  case (Cons date dates)
  from Cons.prems have "date \<noteq> []" and rest: "[] \<notin> set dates" by auto
  then have "filter (\<lambda>t. scrim_time t = [])
               (filter (\<lambda>t. \<not> (team_name t = name \<and> scrim_time t = date)) (teams db)) =
             filter (\<lambda>t. scrim_time t = []) (teams db)"
    by (auto simp: filter_filter intro: filter_cong)
  with Cons.IH [OF rest] show ?case by simp
qed

text \<open>
  For every store and user: the schedule \<^verbatim>\<open>check_schedule_logic\<close> reports never contains
  the empty string; the dates \<^verbatim>\<open>cancel_sign_up_logic\<close> offers never contain it; and
  whatever subset of the offered dates is selected, the callback leaves the rows with
  empty \<^verbatim>\<open>scrim_time\<close> exactly as they were.
\<close>

lemma empty_scrim_time_filtered:
  "(\<forall>name schedule. check_schedule_logic db u = Some (name, schedule) \<longrightarrow> [] \<notin> set schedule) \<and>
   (\<forall>name dates. cancel_sign_up_logic db leader = CancelSelect name dates \<longrightarrow>
      [] \<notin> set dates \<and>
      (\<forall>selected. set selected \<subseteq> set dates \<longrightarrow>
         filter (\<lambda>t. scrim_time t = []) (teams (cancel_select_callback name selected db)) =
         filter (\<lambda>t. scrim_time t = []) (teams db)))"
proof (intro conjI allI impI)
  fix name schedule
  assume "check_schedule_logic db u = Some (name, schedule)"
  then show "[] \<notin> set schedule"
    by (auto simp: check_schedule_logic_def Let_def split: option.splits list.splits)
next
  fix name dates
  assume "cancel_sign_up_logic db leader = CancelSelect name dates"
  then show "[] \<notin> set dates"
    by (auto simp: cancel_sign_up_logic_def Let_def split: list.splits if_splits)
next
  fix name dates selected
  assume "cancel_sign_up_logic db leader = CancelSelect name dates"
  then have "[] \<notin> set dates"
    by (auto simp: cancel_sign_up_logic_def Let_def split: list.splits if_splits)
  moreover assume "set selected \<subseteq> set dates"
  ultimately have "[] \<notin> set selected" by auto
  then show "filter (\<lambda>t. scrim_time t = []) (teams (cancel_select_callback name selected db)) =
             filter (\<lambda>t. scrim_time t = []) (teams db)"
    by (rule cancel_keeps_base_rows)
qed


end
